theory Spec2Isabelle
  imports Main
begin

section \<open>Credentialing helpdesk: ticket lifecycle and SLA deadlines\<close>

text \<open>
  A shallow embedding of \<^verbatim>\<open>app.py\<close> and \<^verbatim>\<open>models.py\<close>. Every route is a function
  from the request (the logged-in user, the form fields, the clock) and the database to a
  response and the database after the request. A route that flashes an error and redirects
  returns \<open>Inl\<close> of that error and the database it was given.

  Strings are \<open>char list\<close>, so the model covers one-byte characters; \<open>lower\<close> and \<open>strip\<close>
  act on them as Python's \<^verbatim>\<open>str.lower\<close> and \<^verbatim>\<open>str.strip\<close> do on ASCII text.

  Mail goes through \<^verbatim>\<open>send_email\<close>, which catches every exception and never touches the
  database, and an accepted upload is written to the upload folder; neither is part of the
  model. Routes are modelled for a logged-in user, and \<^verbatim>\<open>create_ticket\<close> for a POST request.
\<close>

subsection \<open>Dates and times\<close>

text \<open>
  A \<^verbatim>\<open>datetime\<close> is its wall-clock reading in microseconds together with its \<^verbatim>\<open>tzinfo\<close>
  (\<open>None\<close> for a naive value). The clock is the current instant in microseconds of UTC.
  \<^verbatim>\<open>Asia/Karachi\<close> is taken at its fixed offset of five hours.
\<close>

datatype zone = UTC | PK_TZ

record datetime =
  wall :: int
  tzinfo :: "zone option"

definition utcoffset :: "zone \<Rightarrow> int" where
  "utcoffset z = (case z of UTC \<Rightarrow> 0 | PK_TZ \<Rightarrow> 5 * 3600000000)"

definition timedelta :: "int \<Rightarrow> int \<Rightarrow> int" where
  \<comment> \<open>\<^verbatim>\<open>timedelta(days=d, hours=h)\<close>, in microseconds\<close>
  "timedelta d h = d * 86400000000 + h * 3600000000"

definition dt_add :: "datetime \<Rightarrow> int \<Rightarrow> datetime" where
  \<comment> \<open>\<^verbatim>\<open>dt + timedelta\<close>: wall-clock arithmetic, the zone is kept\<close>
  "dt_add dt delta = dt\<lparr>wall := wall dt + delta\<rparr>"

definition now_in :: "int \<Rightarrow> zone \<Rightarrow> datetime" where
  \<comment> \<open>\<^verbatim>\<open>datetime.now(tz)\<close>\<close>
  "now_in clock z = \<lparr>wall = clock + utcoffset z, tzinfo = Some z\<rparr>"

definition utcnow :: "int \<Rightarrow> datetime" where
  \<comment> \<open>\<^verbatim>\<open>datetime.utcnow()\<close>: naive\<close>
  "utcnow clock = \<lparr>wall = clock, tzinfo = None\<rparr>"

definition replace_tzinfo :: "datetime \<Rightarrow> zone option \<Rightarrow> datetime" where
  "replace_tzinfo dt z = dt\<lparr>tzinfo := z\<rparr>"

definition shift_zone :: "zone \<Rightarrow> zone \<Rightarrow> int \<Rightarrow> int" where
  \<comment> \<open>the wall-clock reading in zone \<open>z'\<close> of the instant that reads \<open>w\<close> in zone \<open>z\<close>\<close>
  "shift_zone z z' w = w - utcoffset z + utcoffset z'"

definition astimezone :: "zone \<Rightarrow> datetime \<Rightarrow> zone \<Rightarrow> datetime" where
  \<comment> \<open>\<^verbatim>\<open>dt.astimezone(z')\<close> for an aware \<open>dt\<close> whose zone is \<open>z\<close>\<close>
  "astimezone z dt z' = \<lparr>wall = shift_zone z z' (wall dt), tzinfo = Some z'\<rparr>"

definition make_naive :: "datetime \<Rightarrow> datetime" where
  "make_naive dt =
     (case tzinfo dt of
        Some z \<Rightarrow> replace_tzinfo (astimezone z dt PK_TZ) None
      | None \<Rightarrow> dt)"

definition naive_pk_now :: "int \<Rightarrow> datetime" where
  \<comment> \<open>\<^verbatim>\<open>datetime.now(PK_TZ).replace(tzinfo=None)\<close>\<close>
  "naive_pk_now clock = replace_tzinfo (now_in clock PK_TZ) None"

definition db_datetime :: "datetime \<Rightarrow> datetime" where
  \<comment> \<open>a \<^verbatim>\<open>db.DateTime\<close> column keeps the wall-clock fields and no zone\<close>
  "db_datetime dt = replace_tzinfo dt None"

subsection \<open>Strings\<close>

definition lower_char :: "char \<Rightarrow> char" where
  "lower_char c =
     (case map_of (zip ''ABCDEFGHIJKLMNOPQRSTUVWXYZ'' ''abcdefghijklmnopqrstuvwxyz'') c of
        Some d \<Rightarrow> d
      | None \<Rightarrow> c)"

definition lower :: "string \<Rightarrow> string" where
  "lower s = map lower_char s"

definition is_space :: "char \<Rightarrow> bool" where
  \<comment> \<open>the one-byte characters for which \<^verbatim>\<open>str.isspace\<close> holds\<close>
  "is_space c = ((of_char c :: nat) \<in> set [9, 10, 11, 12, 13, 28, 29, 30, 31, 32, 133, 160])"

definition strip :: "string \<Rightarrow> string" where
  "strip s = rev (dropWhile is_space (rev (dropWhile is_space s)))"

definition rsplit_once :: "char \<Rightarrow> string \<Rightarrow> string list" where
  \<comment> \<open>\<^verbatim>\<open>s.rsplit(sep, 1)\<close>\<close>
  "rsplit_once sep s =
     (if sep \<in> set s
      then [rev (tl (dropWhile (\<lambda>c. c \<noteq> sep) (rev s))), rev (takeWhile (\<lambda>c. c \<noteq> sep) (rev s))]
      else [s])"

definition truthy :: "string option \<Rightarrow> bool" where
  \<comment> \<open>Python truth of a form value: neither \<^verbatim>\<open>None\<close> nor the empty string\<close>
  "truthy v = (case v of None \<Rightarrow> False | Some s \<Rightarrow> s \<noteq> [])"

definition form_get :: "string option \<Rightarrow> string \<Rightarrow> string" where
  \<comment> \<open>\<^verbatim>\<open>request.form.get(key, default)\<close>\<close>
  "form_get v d = (case v of None \<Rightarrow> d | Some s \<Rightarrow> s)"

subsection \<open>The data model\<close>

record user =
  user_id :: int
  username :: string
  email :: string
  role :: string

record ticket =
  ticket_id :: int
  staff_id :: int
  practice_name :: string
  provider_name :: string
  subject :: string
  description :: string
  priority :: string
  status :: string
  attachment_filename :: "string option"
  assigned_to :: "string option"
  created_at :: datetime
  updated_at :: datetime
  due_time :: datetime

record comment =
  comment_id :: int
  on_ticket :: int
  author :: int
  message :: string
  posted_at :: datetime

record db =
  tickets :: "ticket list"
  comments :: "comment list"

datatype error =
  NotAuthorized | NotFound | InvalidStatus | InvalidAction
  | InvalidAttachment | EmptyMessage | MissingFields

record ticket_form =
  f_practice_name :: "string option"
  f_provider_name :: "string option"
  f_subject :: "string option"
  f_description :: "string option"
  f_priority :: "string option"
  f_attachment :: "string option"

definition get_ticket :: "db \<Rightarrow> int \<Rightarrow> ticket option" where
  \<comment> \<open>\<^verbatim>\<open>Ticket.query.get\<close>; \<open>None\<close> is the 404 of \<^verbatim>\<open>get_or_404\<close>\<close>
  "get_ticket d i = find (\<lambda>t. ticket_id t = i) (tickets d)"

definition next_id :: "int list \<Rightarrow> int" where
  \<comment> \<open>the key the database gives a new row: one more than the largest in use\<close>
  "next_id ids = fold max ids 0 + 1"

definition commit_ticket :: "int \<Rightarrow> ticket \<Rightarrow> ticket \<Rightarrow> db \<Rightarrow> db" where
  \<comment> \<open>\<^verbatim>\<open>db.session.commit()\<close> after assignments to a loaded ticket: an UPDATE is
      issued only when a column changed, and it fires \<^verbatim>\<open>onupdate\<close> of \<^verbatim>\<open>updated_at\<close>\<close>
  "commit_ticket clock old new d =
     (if new = old then d
      else d\<lparr>tickets :=
             map (\<lambda>t. if ticket_id t = ticket_id old
                       then new\<lparr>updated_at := naive_pk_now clock\<rparr> else t)
                 (tickets d)\<rparr>)"

subsection \<open>Helpers of \<^verbatim>\<open>create_app\<close>\<close>

definition ALLOWED_EXTENSIONS :: "string list" where
  "ALLOWED_EXTENSIONS = [''pdf'', ''png'', ''jpg'', ''jpeg'', ''doc'', ''docx'', ''xls'', ''xlsx'']"

definition allowed_file :: "string \<Rightarrow> bool" where
  "allowed_file filename =
     (CHR ''.'' \<in> set filename \<and>
      lower (rsplit_once CHR ''.'' filename ! 1) \<in> set ALLOWED_EXTENSIONS)"

definition calculate_due_time :: "int \<Rightarrow> string \<Rightarrow> datetime" where
  "calculate_due_time clock p =
     (let now = replace_tzinfo (now_in clock PK_TZ) None
      in if p = ''Urgent'' then dt_add now (timedelta 0 2)
         else if p = ''7 Days'' then dt_add now (timedelta 7 0)
         else if p = ''15 Days'' then dt_add now (timedelta 15 0)
         else dt_add now (timedelta 7 0))"

definition check_ticket_deadlines :: "int \<Rightarrow> db \<Rightarrow> ticket list" where
  \<comment> \<open>the tickets the reminder job mails about\<close>
  "check_ticket_deadlines clock d =
     (let now = utcnow clock;
          pending_statuses = [''Open'', ''In Progress'', ''Solved'']
      in filter (\<lambda>t. status t \<in> set pending_statuses \<and> wall (due_time t) \<le> wall now)
                (tickets d))"

subsection \<open>Dashboards\<close>

definition is_closed :: "ticket \<Rightarrow> bool" where
  "is_closed t = (lower (status t) \<in> set [''closed'', ''approved''])"

definition is_overdue :: "datetime \<Rightarrow> ticket \<Rightarrow> bool" where
  \<comment> \<open>the condition of the \<^verbatim>\<open>overdue_tickets\<close> sum of both dashboards\<close>
  "is_overdue now t =
     (wall (make_naive (due_time t)) < wall now \<and>
      lower (status t) \<notin> set [''closed'', ''approved''])"

record dashboard =
  total_tickets :: nat
  closed_tickets :: nat
  overdue_tickets :: nat

definition dashboard_counts :: "int \<Rightarrow> ticket list \<Rightarrow> dashboard" where
  "dashboard_counts clock ts =
     (let now = make_naive (now_in clock PK_TZ)
      in \<lparr>total_tickets = length ts,
          closed_tickets = length (filter is_closed ts),
          overdue_tickets = length (filter (is_overdue now) ts)\<rparr>)"

definition staff_dashboard :: "int \<Rightarrow> user \<Rightarrow> string \<Rightarrow> db \<Rightarrow> dashboard option" where
  \<comment> \<open>\<open>None\<close> is the redirect to the admin dashboard\<close>
  "staff_dashboard clock current_user selected_status d =
     (if role current_user \<noteq> ''staff'' then None
      else
        let mine = filter (\<lambda>t. staff_id t = user_id current_user) (tickets d);
            shown = (if selected_status \<noteq> ''All''
                     then filter (\<lambda>t. status t = selected_status) mine else mine)
        in Some (dashboard_counts clock shown))"

definition admin_dashboard :: "int \<Rightarrow> user \<Rightarrow> string \<Rightarrow> db \<Rightarrow> dashboard option" where
  \<comment> \<open>\<open>None\<close> is the redirect to the staff dashboard\<close>
  "admin_dashboard clock current_user status_filter d =
     (if role current_user \<noteq> ''admin'' then None
      else
        let shown = (if status_filter \<noteq> ''All''
                     then filter (\<lambda>t. status t = status_filter) (tickets d) else tickets d)
        in Some (dashboard_counts clock shown))"

subsection \<open>Creating a ticket\<close>

definition handle_attachment :: "(string \<Rightarrow> string) \<Rightarrow> string option \<Rightarrow> error + string option" where
  \<comment> \<open>the upload block of \<^verbatim>\<open>create_ticket\<close>; the argument is the filename of the
      \<^verbatim>\<open>attachment\<close> part, \<open>None\<close> when the request has no such part\<close>
  "handle_attachment secure_filename attachment_file =
     (case attachment_file of
        None \<Rightarrow> Inr None
      | Some fname \<Rightarrow>
          if fname = [] then Inr None
          else if allowed_file fname then Inr (Some (secure_filename fname))
          else Inl InvalidAttachment)"

definition create_ticket ::
  "(string \<Rightarrow> string) \<Rightarrow> int \<Rightarrow> user \<Rightarrow> ticket_form \<Rightarrow> db \<Rightarrow> (error + int) \<times> db" where
  \<comment> \<open>the POST branch; \<^verbatim>\<open>secure_filename\<close> of werkzeug is a parameter\<close>
  "create_ticket secure_filename clock current_user form d =
     (if role current_user \<noteq> ''staff'' then (Inl NotAuthorized, d)
      else if \<not> list_all truthy
                 [f_practice_name form, f_provider_name form, f_subject form,
                  f_description form, f_priority form]
      then (Inl MissingFields, d)
      else
        let p = the (f_priority form);
            created = now_in clock PK_TZ;
            due = (if p = ''Urgent'' then dt_add created (timedelta 0 2)
                   else if p = ''7 Days'' then dt_add created (timedelta 7 0)
                   else dt_add created (timedelta 3 0))
        in case handle_attachment secure_filename (f_attachment form) of
             Inl e \<Rightarrow> (Inl e, d)
           | Inr fname \<Rightarrow>
               let t = \<lparr>ticket_id = next_id (map ticket_id (tickets d)),
                        staff_id = user_id current_user,
                        practice_name = the (f_practice_name form),
                        provider_name = the (f_provider_name form),
                        subject = the (f_subject form),
                        description = the (f_description form),
                        priority = p,
                        status = ''Open'',
                        attachment_filename = fname,
                        assigned_to = Some [],
                        created_at = db_datetime created,
                        updated_at = naive_pk_now clock,
                        due_time = db_datetime due\<rparr>
               in (Inr (ticket_id t), d\<lparr>tickets := tickets d @ [t]\<rparr>))"

subsection \<open>Admin routes\<close>

definition admin_update_status ::
  "int \<Rightarrow> user \<Rightarrow> int \<Rightarrow> string option \<Rightarrow> db \<Rightarrow> (error + unit) \<times> db" where
  "admin_update_status clock current_user tid new_status d =
     (if role current_user \<noteq> ''admin'' then (Inl NotAuthorized, d)
      else case get_ticket d tid of
             None \<Rightarrow> (Inl NotFound, d)
           | Some t \<Rightarrow>
               if new_status \<notin> set (map Some [''Open'', ''In Progress'', ''Solved''])
               then (Inl InvalidStatus, d)
               else (Inr (), commit_ticket clock t (t\<lparr>status := the new_status\<rparr>) d))"

definition admin_update_assigned ::
  "int \<Rightarrow> user \<Rightarrow> int \<Rightarrow> string option \<Rightarrow> db \<Rightarrow> (error + unit) \<times> db" where
  "admin_update_assigned clock current_user tid assigned d =
     (if role current_user \<noteq> ''admin'' then (Inl NotAuthorized, d)
      else case get_ticket d tid of
             None \<Rightarrow> (Inl NotFound, d)
           | Some t \<Rightarrow>
               (Inr (),
                commit_ticket clock t (t\<lparr>assigned_to := Some (strip (form_get assigned []))\<rparr>) d))"

subsection \<open>Shared ticket views and comments\<close>

definition view_ticket :: "user \<Rightarrow> int \<Rightarrow> db \<Rightarrow> error + ticket" where
  \<comment> \<open>the ticket handed to the template; nothing is committed\<close>
  "view_ticket current_user tid d =
     (case get_ticket d tid of
        None \<Rightarrow> Inl NotFound
      | Some t \<Rightarrow>
          let t1 = t\<lparr>created_at :=
                      astimezone UTC (replace_tzinfo (created_at t) (Some UTC)) PK_TZ\<rparr>;
              t2 = t1\<lparr>due_time :=
                      (case tzinfo (due_time t1) of
                         None \<Rightarrow> astimezone UTC (replace_tzinfo (due_time t1) (Some UTC)) PK_TZ
                       | Some z \<Rightarrow> astimezone z (due_time t1) PK_TZ)\<rparr>
          in if role current_user = ''staff'' \<and> staff_id t2 \<noteq> user_id current_user
             then Inl NotAuthorized
             else Inr t2)"

definition add_comment ::
  "int \<Rightarrow> user \<Rightarrow> int \<Rightarrow> string option \<Rightarrow> db \<Rightarrow> (error + unit) \<times> db" where
  "add_comment clock current_user tid msg d =
     (case get_ticket d tid of
        None \<Rightarrow> (Inl NotFound, d)
      | Some t \<Rightarrow>
          let m = strip (form_get msg [])
          in if m = [] then (Inl EmptyMessage, d)
             else
               let c = \<lparr>comment_id = next_id (map comment_id (comments d)),
                        on_ticket = ticket_id t,
                        author = user_id current_user,
                        message = m,
                        posted_at = db_datetime (now_in clock PK_TZ)\<rparr>
               in (Inr (), d\<lparr>comments := comments d @ [c]\<rparr>))"

subsection \<open>Staff approve and reopen\<close>

definition staff_action ::
  "int \<Rightarrow> user \<Rightarrow> int \<Rightarrow> string option \<Rightarrow> db \<Rightarrow> (error + unit) \<times> db" where
  "staff_action clock current_user tid action d =
     (case get_ticket d tid of
        None \<Rightarrow> (Inl NotFound, d)
      | Some t \<Rightarrow>
          if role current_user \<noteq> ''staff'' \<or> staff_id t \<noteq> user_id current_user
          then (Inl NotAuthorized, d)
          else if action = Some ''approve_close''
                  \<and> status t \<in> set [''Solved'', ''In Progress'', ''Open'']
          then (Inr (), commit_ticket clock t (t\<lparr>status := ''Closed''\<rparr>) d)
          else if action = Some ''reopen'' \<and> status t \<in> set [''Solved'', ''Closed'']
          then (Inr (),
                commit_ticket clock t
                  (t\<lparr>status := ''In Progress'',
                     due_time := calculate_due_time clock (priority t)\<rparr>) d)
          else (Inl InvalidAction, d))"

subsection \<open>Sample data\<close>

text \<open>
  Two staff members, an admin and a database with one closed ticket of Alice, used where a
  property is run on a concrete request. The clock reads 2025-01-01 00:00 UTC.
\<close>

definition sample_clock :: int where
  "sample_clock = 1735689600000000"

definition staff_alice :: user where
  "staff_alice =
     \<lparr>user_id = 1, username = ''alice'', email = ''alice@example.org'', role = ''staff''\<rparr>"

definition staff_bob :: user where
  "staff_bob =
     \<lparr>user_id = 2, username = ''bob'', email = ''bob@example.org'', role = ''staff''\<rparr>"

definition admin_carol :: user where
  "admin_carol =
     \<lparr>user_id = 3, username = ''carol'', email = ''carol@example.org'', role = ''admin''\<rparr>"

definition sample_ticket :: ticket where
  "sample_ticket =
     \<lparr>ticket_id = 1, staff_id = 1, practice_name = ''Clinic'', provider_name = ''Dr A'',
      subject = ''Enrolment'', description = ''Please enrol'', priority = ''15 Days'',
      status = ''Closed'', attachment_filename = None, assigned_to = Some ''dana'',
      created_at = \<lparr>wall = 1735000000000000, tzinfo = None\<rparr>,
      updated_at = \<lparr>wall = 1735000000000000, tzinfo = None\<rparr>,
      due_time = \<lparr>wall = 1735259200000000, tzinfo = None\<rparr>\<rparr>"

definition sample_db :: db where
  "sample_db = \<lparr>tickets = [sample_ticket], comments = []\<rparr>"

definition sample_form :: ticket_form where
  "sample_form =
     \<lparr>f_practice_name = Some ''Clinic'', f_provider_name = Some ''Dr B'',
      f_subject = Some ''Revalidation'', f_description = Some ''Due soon'',
      f_priority = Some ''15 Days'', f_attachment = None\<rparr>"

definition late_ticket :: ticket where
  \<comment> \<open>an open ticket of Alice that was due at 04:00 Karachi time; the sample clock reads
      05:00 in Karachi\<close>
  "late_ticket =
     sample_ticket\<lparr>ticket_id := 2, status := ''Open'',
                   due_time := \<lparr>wall = sample_clock + 4 * 3600000000, tzinfo = None\<rparr>\<rparr>"

definition overdue_db :: db where
  "overdue_db = \<lparr>tickets = [late_ticket], comments = []\<rparr>"

lemmas sample_defs =
  sample_clock_def staff_alice_def staff_bob_def admin_carol_def sample_ticket_def
  sample_db_def sample_form_def late_ticket_def overdue_db_def

section \<open>Properties\<close>

subsection \<open>Looking tickets up after a commit\<close>

lemmas time_defs =
  utcoffset_def timedelta_def dt_add_def now_in_def utcnow_def replace_tzinfo_def
  shift_zone_def astimezone_def make_naive_def naive_pk_now_def db_datetime_def

lemma get_ticket_id: "get_ticket d i = Some t \<Longrightarrow> ticket_id t = i"
  by (auto simp: get_ticket_def find_Some_iff)

lemma find_map_replace:
  "find (\<lambda>t. ticket_id t = i) xs = Some t \<Longrightarrow> ticket_id n = i \<Longrightarrow>
   find (\<lambda>t. ticket_id t = i) (map (\<lambda>x. if ticket_id x = i then n else x) xs) = Some n"
  by (induction xs) (auto split: if_splits)

lemma find_map_other:
  "ticket_id n = i \<Longrightarrow> j \<noteq> i \<Longrightarrow>
   find (\<lambda>t. ticket_id t = j) (map (\<lambda>x. if ticket_id x = i then n else x) xs)
     = find (\<lambda>t. ticket_id t = j) xs"
  by (induction xs) auto

lemma get_ticket_commit:
  assumes "get_ticket d i = Some t" "ticket_id new = ticket_id t"
  shows "get_ticket (commit_ticket clock t new d) i
           = Some (if new = t then t else new\<lparr>updated_at := naive_pk_now clock\<rparr>)"
proof -
  have i: "ticket_id t = i" using assms(1) by (rule get_ticket_id)
  show ?thesis
  proof (cases "new = t")
    case True
    then show ?thesis using assms(1) by (simp add: commit_ticket_def)
  next
    case False
    have "find (\<lambda>t. ticket_id t = i)
            (map (\<lambda>x. if ticket_id x = i then new\<lparr>updated_at := naive_pk_now clock\<rparr> else x)
               (tickets d)) = Some (new\<lparr>updated_at := naive_pk_now clock\<rparr>)"
      using assms i by (intro find_map_replace) (simp_all add: get_ticket_def)
    then show ?thesis using False i by (simp add: commit_ticket_def get_ticket_def)
  qed
qed

lemma get_ticket_commit_other:
  assumes "ticket_id new = ticket_id t" "j \<noteq> ticket_id t"
  shows "get_ticket (commit_ticket clock t new d) j = get_ticket d j"
  using assms by (simp add: commit_ticket_def get_ticket_def find_map_other)

lemma comments_commit: "comments (commit_ticket clock t new d) = comments d"
  by (simp add: commit_ticket_def)

lemma committed_ticket:
  assumes "get_ticket d i = Some t" "ticket_id new = ticket_id t"
  obtains t' where "get_ticket (commit_ticket clock t new d) i = Some t'"
    and "t'\<lparr>updated_at := updated_at t\<rparr> = new\<lparr>updated_at := updated_at t\<rparr>"
proof (cases "new = t")
  case True
  with get_ticket_commit [OF assms, of clock] that [of t] show thesis by simp
next
  case False
  with get_ticket_commit [OF assms, of clock]
    that [of "new\<lparr>updated_at := naive_pk_now clock\<rparr>"] show thesis by simp
qed

lemma committed_status:
  assumes "get_ticket d i = Some t" "ticket_id new = ticket_id t"
  shows "map_option status (get_ticket (commit_ticket clock t new d) i) = Some (status new)"
proof -
  obtain t' where g: "get_ticket (commit_ticket clock t new d) i = Some t'"
    and e: "t'\<lparr>updated_at := updated_at t\<rparr> = new\<lparr>updated_at := updated_at t\<rparr>"
    using assms by (rule committed_ticket)
  from e have "status (t'\<lparr>updated_at := updated_at t\<rparr>) = status (new\<lparr>updated_at := updated_at t\<rparr>)"
    by (rule arg_cong)
  then show ?thesis using g by simp
qed

lemma committed_due_time:
  assumes "get_ticket d i = Some t" "ticket_id new = ticket_id t"
  shows "map_option due_time (get_ticket (commit_ticket clock t new d) i) = Some (due_time new)"
proof -
  obtain t' where g: "get_ticket (commit_ticket clock t new d) i = Some t'"
    and e: "t'\<lparr>updated_at := updated_at t\<rparr> = new\<lparr>updated_at := updated_at t\<rparr>"
    using assms by (rule committed_ticket)
  from e have "due_time (t'\<lparr>updated_at := updated_at t\<rparr>) = due_time (new\<lparr>updated_at := updated_at t\<rparr>)"
    by (rule arg_cong)
  then show ?thesis using g by simp
qed

subsection \<open>Staff approve and reopen\<close>

lemma staff_action_owner:
  assumes "get_ticket d tid = Some t" and "role u = ''staff''" and "staff_id t = user_id u"
  shows "staff_action clock u tid action d =
     (if action = Some ''approve_close'' \<and> status t \<in> set [''Solved'', ''In Progress'', ''Open'']
      then (Inr (), commit_ticket clock t (t\<lparr>status := ''Closed''\<rparr>) d)
      else if action = Some ''reopen'' \<and> status t \<in> set [''Solved'', ''Closed'']
      then (Inr (), commit_ticket clock t
                  (t\<lparr>status := ''In Progress'',
                     due_time := calculate_due_time clock (priority t)\<rparr>) d)
      else (Inl InvalidAction, d))"
  unfolding staff_action_def using assms by simp

text \<open>
  C4. For the staff member who owns the ticket, \<^verbatim>\<open>approve_close\<close> succeeds exactly from
  Open, In Progress and Solved and leaves the ticket Closed; \<^verbatim>\<open>reopen\<close> succeeds exactly from
  Solved and Closed and leaves it In Progress; every other pair of status and action gives
  \<open>InvalidAction\<close> and the database it was given, so status and due time are as before.
\<close>

theorem staff_action_state_machine:
  assumes "get_ticket d tid = Some t" and "role u = ''staff''" and "staff_id t = user_id u"
  shows "(if action = Some ''approve_close'' \<and> status t \<in> {''Open'', ''In Progress'', ''Solved''}
          then fst (staff_action clock u tid action d) = Inr () \<and>
               map_option status (get_ticket (snd (staff_action clock u tid action d)) tid)
                 = Some ''Closed''
          else if action = Some ''reopen'' \<and> status t \<in> {''Solved'', ''Closed''}
          then fst (staff_action clock u tid action d) = Inr () \<and>
               map_option status (get_ticket (snd (staff_action clock u tid action d)) tid)
                 = Some ''In Progress''
          else staff_action clock u tid action d = (Inl InvalidAction, d))"
proof -
  note sa = staff_action_owner [OF assms, of clock action]
  consider (close) "action = Some ''approve_close''"
      "status t \<in> set [''Solved'', ''In Progress'', ''Open'']"
    | (reopen) "action = Some ''reopen''" "status t \<in> set [''Solved'', ''Closed'']"
    | (other) "\<not> (action = Some ''approve_close'' \<and> status t \<in> set [''Solved'', ''In Progress'', ''Open''])"
        "\<not> (action = Some ''reopen'' \<and> status t \<in> set [''Solved'', ''Closed''])"
    by blast
  then show ?thesis
  proof cases
    case close
    have "map_option status (get_ticket (commit_ticket clock t (t\<lparr>status := ''Closed''\<rparr>) d) tid)
            = Some ''Closed''"
      using committed_status [OF assms(1), of "t\<lparr>status := ''Closed''\<rparr>" clock] by simp
    with close sa show ?thesis by auto
  next
    case reopen
    have "map_option status (get_ticket (commit_ticket clock t
             (t\<lparr>status := ''In Progress'', due_time := calculate_due_time clock (priority t)\<rparr>) d) tid)
            = Some ''In Progress''"
      using committed_status [OF assms(1),
          of "t\<lparr>status := ''In Progress'', due_time := calculate_due_time clock (priority t)\<rparr>" clock]
      by simp
    with reopen sa show ?thesis by auto
  next
    case other
    with sa show ?thesis by auto
  qed
qed

theorem staff_action_state_machine_witness:
  "get_ticket sample_db 1 = Some sample_ticket \<and> role staff_alice = ''staff'' \<and>
   staff_id sample_ticket = user_id staff_alice \<and>
   fst (staff_action sample_clock staff_alice 1 (Some ''reopen'') sample_db) = Inr () \<and>
   map_option status
     (get_ticket (snd (staff_action sample_clock staff_alice 1 (Some ''reopen'') sample_db)) 1)
     = Some ''In Progress'' \<and>
   staff_action sample_clock staff_alice 1 (Some ''approve_close'') sample_db
     = (Inl InvalidAction, sample_db)"
proof -
  have h1: "get_ticket sample_db 1 = Some sample_ticket"
    by (simp add: get_ticket_def sample_defs)
  have h2: "role staff_alice = ''staff''" by (simp add: sample_defs)
  have h3: "staff_id sample_ticket = user_id staff_alice" by (simp add: sample_defs)
  have s: "status sample_ticket = ''Closed''" by (simp add: sample_defs)
  from staff_action_state_machine [OF h1 h2 h3, of "Some ''reopen''" sample_clock]
    staff_action_state_machine [OF h1 h2 h3, of "Some ''approve_close''" sample_clock]
  show ?thesis using h1 h2 h3 by (simp add: s)
qed

subsection \<open>Due time after a reopen\<close>

lemma calculate_due_time_table:
  "calculate_due_time clock p =
     dt_add (naive_pk_now clock)
       (if p = ''Urgent'' then timedelta 0 2
        else if p = ''7 Days'' then timedelta 7 0
        else if p = ''15 Days'' then timedelta 15 0
        else timedelta 7 0)"
  by (simp add: calculate_due_time_def naive_pk_now_def)

text \<open>
  C1, as the code has it. When the owning staff member reopens a Solved or Closed ticket, the new
  due time is the current Karachi wall-clock time plus two hours for Urgent, seven days for
  ``7 Days'', fifteen days for ``15 Days'' and seven days for any other priority.
\<close>

theorem reopen_due_time:
  assumes "get_ticket d tid = Some t" and "role u = ''staff''" and "staff_id t = user_id u"
    and "status t \<in> {''Solved'', ''Closed''}"
  shows "fst (staff_action clock u tid (Some ''reopen'') d) = Inr () \<and>
         map_option due_time (get_ticket (snd (staff_action clock u tid (Some ''reopen'') d)) tid)
           = Some (dt_add (naive_pk_now clock)
                     (if priority t = ''Urgent'' then timedelta 0 2
                      else if priority t = ''7 Days'' then timedelta 7 0
                      else if priority t = ''15 Days'' then timedelta 15 0
                      else timedelta 7 0))"
proof -
  have sa: "staff_action clock u tid (Some ''reopen'') d =
      (Inr (), commit_ticket clock t
         (t\<lparr>status := ''In Progress'', due_time := calculate_due_time clock (priority t)\<rparr>) d)"
    using staff_action_owner [OF assms(1-3), of clock "Some ''reopen''"] assms(4) by auto
  have "map_option due_time (get_ticket (commit_ticket clock t
          (t\<lparr>status := ''In Progress'', due_time := calculate_due_time clock (priority t)\<rparr>) d) tid)
        = Some (calculate_due_time clock (priority t))"
    using committed_due_time [OF assms(1),
        of "t\<lparr>status := ''In Progress'', due_time := calculate_due_time clock (priority t)\<rparr>" clock]
    by simp
  with sa show ?thesis by (simp add: calculate_due_time_table)
qed

theorem reopen_due_time_witness:
  "get_ticket sample_db 1 = Some sample_ticket \<and> role staff_alice = ''staff'' \<and>
   staff_id sample_ticket = user_id staff_alice \<and> status sample_ticket \<in> {''Solved'', ''Closed''} \<and>
   map_option due_time
     (get_ticket (snd (staff_action sample_clock staff_alice 1 (Some ''reopen'') sample_db)) 1)
     = Some (dt_add (naive_pk_now sample_clock) (timedelta 15 0))"
proof -
  have h1: "get_ticket sample_db 1 = Some sample_ticket"
    by (simp add: get_ticket_def sample_defs)
  have h2: "role staff_alice = ''staff''" by (simp add: sample_defs)
  have h3: "staff_id sample_ticket = user_id staff_alice" by (simp add: sample_defs)
  have h4: "status sample_ticket \<in> {''Solved'', ''Closed''}" by (simp add: sample_defs)
  have p: "priority sample_ticket = ''15 Days''" by (simp add: sample_defs)
  from reopen_due_time [OF h1 h2 h3 h4, of sample_clock]
  show ?thesis using h1 h2 h3 h4 by (simp add: p)
qed

text \<open>
  Reopening the closed ``15 Days'' ticket of the sample database moves its due time fifteen
  days ahead of the reopening, not seven.
\<close>

theorem reopen_15_days_counterexample:
  "status sample_ticket = ''Closed'' \<and> priority sample_ticket = ''15 Days'' \<and>
   staff_id sample_ticket = user_id staff_alice \<and>
   map_option due_time
     (get_ticket (snd (staff_action sample_clock staff_alice 1 (Some ''reopen'') sample_db)) 1)
     = Some (dt_add (naive_pk_now sample_clock) (timedelta 15 0)) \<and>
   map_option due_time
     (get_ticket (snd (staff_action sample_clock staff_alice 1 (Some ''reopen'') sample_db)) 1)
     \<noteq> Some (dt_add (naive_pk_now sample_clock) (timedelta 7 0))"
  by (simp add: staff_action_def get_ticket_def commit_ticket_def calculate_due_time_def
      sample_defs time_defs)

subsection \<open>Changing the status\<close>

text \<open>
  C5. \<^verbatim>\<open>admin_update_status\<close> answers \<open>NotAuthorized\<close> to every user who is not an admin, the
  owner of the ticket included; to an admin it answers \<open>NotFound\<close> when the ticket does not
  exist, and \<open>InvalidStatus\<close> when the ticket exists and the new status is none of Open,
  In Progress and Solved. These are its only failures, and each leaves the database as it was.
\<close>

theorem admin_update_status_failures:
  "(role u \<noteq> ''admin'' \<longrightarrow>
      admin_update_status clock u tid new_status d = (Inl NotAuthorized, d)) \<and>
   (role u = ''admin'' \<and> get_ticket d tid = None \<longrightarrow>
      admin_update_status clock u tid new_status d = (Inl NotFound, d)) \<and>
   (role u = ''admin'' \<and> get_ticket d tid \<noteq> None \<and>
    new_status \<notin> {Some ''Open'', Some ''In Progress'', Some ''Solved''} \<longrightarrow>
      admin_update_status clock u tid new_status d = (Inl InvalidStatus, d)) \<and>
   (\<forall>e. fst (admin_update_status clock u tid new_status d) = Inl e \<longrightarrow>
      e \<in> {NotAuthorized, NotFound, InvalidStatus} \<and>
      snd (admin_update_status clock u tid new_status d) = d)"
  by (auto simp: admin_update_status_def split: option.splits)

theorem admin_update_status_failures_witness:
  "role staff_alice \<noteq> ''admin'' \<and> staff_id sample_ticket = user_id staff_alice \<and>
   admin_update_status sample_clock staff_alice 1 (Some ''Solved'') sample_db
     = (Inl NotAuthorized, sample_db) \<and>
   role admin_carol = ''admin'' \<and> get_ticket sample_db 7 = None \<and>
   admin_update_status sample_clock admin_carol 7 (Some ''Solved'') sample_db
     = (Inl NotFound, sample_db) \<and>
   get_ticket sample_db 1 \<noteq> None \<and>
   Some ''Closed'' \<notin> {Some ''Open'', Some ''In Progress'', Some ''Solved''} \<and>
   admin_update_status sample_clock admin_carol 1 (Some ''Closed'') sample_db
     = (Inl InvalidStatus, sample_db) \<and>
   fst (admin_update_status sample_clock admin_carol 1 (Some ''Closed'') sample_db)
     = Inl InvalidStatus \<and>
   snd (admin_update_status sample_clock admin_carol 1 (Some ''Closed'') sample_db) = sample_db"
proof -
  have h1: "role staff_alice \<noteq> ''admin''" by (simp add: sample_defs)
  have h2: "role admin_carol = ''admin''" by (simp add: sample_defs)
  have h3: "get_ticket sample_db 7 = None" by (simp add: get_ticket_def sample_defs)
  have h4: "get_ticket sample_db 1 \<noteq> None" by (simp add: get_ticket_def sample_defs)
  have h5: "Some ''Closed'' \<notin> {Some ''Open'', Some ''In Progress'', Some ''Solved''}" by simp
  have h6: "staff_id sample_ticket = user_id staff_alice" by (simp add: sample_defs)
  note a = admin_update_status_failures [of staff_alice sample_clock 1 "Some ''Solved''" sample_db]
  note b = admin_update_status_failures [of admin_carol sample_clock 7 "Some ''Solved''" sample_db]
  note c = admin_update_status_failures [of admin_carol sample_clock 1 "Some ''Closed''" sample_db]
  have a': "admin_update_status sample_clock staff_alice 1 (Some ''Solved'') sample_db
     = (Inl NotAuthorized, sample_db)" using a h1 by blast
  have b': "admin_update_status sample_clock admin_carol 7 (Some ''Solved'') sample_db
     = (Inl NotFound, sample_db)" using b h2 h3 by blast
  have c': "admin_update_status sample_clock admin_carol 1 (Some ''Closed'') sample_db
     = (Inl InvalidStatus, sample_db)" using c h2 h4 h5 by blast
  show ?thesis using h1 h2 h3 h4 h5 h6 a' b' c' by simp
qed

subsection \<open>Assigning a ticket\<close>

lemma strip_blank:
  assumes "list_all is_space s"
  shows "strip s = []"
proof -
  have d: "dropWhile is_space s = []" using assms by (simp add: list_all_iff)
  show ?thesis unfolding strip_def d by simp
qed

text \<open>
  C10. For an admin and an existing ticket, \<^verbatim>\<open>admin_update_assigned\<close> always succeeds and
  stores the submitted text stripped of surrounding whitespace, which is the empty string when
  the submission is blank. The ticket differs from the old one in \<open>assigned_to\<close> and
  \<open>updated_at\<close> at most; the other tickets and the comments are untouched.
\<close>

theorem admin_update_assigned_frame:
  assumes "role u = ''admin''" and "get_ticket d tid = Some t"
  shows "fst (admin_update_assigned clock u tid a d) = Inr () \<and>
         (\<exists>t'. get_ticket (snd (admin_update_assigned clock u tid a d)) tid = Some t' \<and>
               assigned_to t' = Some (strip (form_get a [])) \<and>
               (list_all is_space (form_get a []) \<longrightarrow> assigned_to t' = Some []) \<and>
               t'\<lparr>assigned_to := assigned_to t, updated_at := updated_at t\<rparr> = t) \<and>
         (\<forall>j. j \<noteq> tid \<longrightarrow>
               get_ticket (snd (admin_update_assigned clock u tid a d)) j = get_ticket d j) \<and>
         comments (snd (admin_update_assigned clock u tid a d)) = comments d"
proof -
  let ?new = "t\<lparr>assigned_to := Some (strip (form_get a []))\<rparr>"
  have r: "admin_update_assigned clock u tid a d = (Inr (), commit_ticket clock t ?new d)"
    using assms by (simp add: admin_update_assigned_def)
  have i: "ticket_id t = tid" using assms(2) by (rule get_ticket_id)
  have idn: "ticket_id ?new = ticket_id t" by simp
  obtain t' where g: "get_ticket (commit_ticket clock t ?new d) tid = Some t'"
    and e: "t'\<lparr>updated_at := updated_at t\<rparr> = ?new\<lparr>updated_at := updated_at t\<rparr>"
    using assms(2) idn by (rule committed_ticket)
  from e have "assigned_to (t'\<lparr>updated_at := updated_at t\<rparr>)
                 = assigned_to (?new\<lparr>updated_at := updated_at t\<rparr>)"
    by (rule arg_cong)
  then have a1: "assigned_to t' = Some (strip (form_get a []))" by simp
  from e have "(t'\<lparr>updated_at := updated_at t\<rparr>)\<lparr>assigned_to := assigned_to t\<rparr>
                 = (?new\<lparr>updated_at := updated_at t\<rparr>)\<lparr>assigned_to := assigned_to t\<rparr>"
    by (rule arg_cong)
  then have a2: "t'\<lparr>assigned_to := assigned_to t, updated_at := updated_at t\<rparr> = t"
    by (cases t', cases t) simp
  have a3: "list_all is_space (form_get a []) \<longrightarrow> assigned_to t' = Some []"
    using a1 by (simp add: strip_blank)
  have o: "\<forall>j. j \<noteq> tid \<longrightarrow> get_ticket (commit_ticket clock t ?new d) j = get_ticket d j"
    using get_ticket_commit_other [OF idn] i by simp
  show ?thesis using r g a1 a2 a3 o by (simp add: comments_commit)
qed

theorem admin_update_assigned_frame_witness:
  "role admin_carol = ''admin'' \<and> get_ticket sample_db 1 = Some sample_ticket \<and>
   list_all is_space (form_get (Some ''  '') []) \<and>
   assigned_to sample_ticket = Some ''dana'' \<and>
   fst (admin_update_assigned sample_clock admin_carol 1 (Some ''  '') sample_db) = Inr () \<and>
   map_option assigned_to
     (get_ticket (snd (admin_update_assigned sample_clock admin_carol 1 (Some ''  '') sample_db)) 1)
     = Some (Some []) \<and>
   get_ticket (snd (admin_update_assigned sample_clock admin_carol 1 (Some ''  '') sample_db)) 2
     = get_ticket sample_db 2"
proof -
  have h1: "role admin_carol = ''admin''" by (simp add: sample_defs)
  have h2: "get_ticket sample_db 1 = Some sample_ticket" by (simp add: get_ticket_def sample_defs)
  have h3: "list_all is_space (form_get (Some ''  '') [])" by (simp add: form_get_def is_space_def)
  have h4: "assigned_to sample_ticket = Some ''dana''" by (simp add: sample_defs)
  have h5: "(2::int) \<noteq> 1" by simp
  from admin_update_assigned_frame [OF h1 h2, of sample_clock "Some ''  ''"] h3 h5
  have "fst (admin_update_assigned sample_clock admin_carol 1 (Some ''  '') sample_db) = Inr ()"
    and "map_option assigned_to
     (get_ticket (snd (admin_update_assigned sample_clock admin_carol 1 (Some ''  '') sample_db)) 1)
     = Some (Some [])"
    and "get_ticket (snd (admin_update_assigned sample_clock admin_carol 1 (Some ''  '') sample_db)) 2
     = get_ticket sample_db 2"
    by auto
  then show ?thesis using h1 h2 h3 h4 by simp
qed

subsection \<open>Viewing and commenting on another staff member's ticket\<close>

lemma view_ticket_other_staff:
  "get_ticket d tid = Some t \<Longrightarrow> role u = ''staff'' \<Longrightarrow> staff_id t \<noteq> user_id u \<Longrightarrow>
   view_ticket u tid d = Inl NotAuthorized"
  by (simp add: view_ticket_def Let_def)

lemma add_comment_any_user:
  "get_ticket d tid = Some t \<Longrightarrow> strip (form_get msg []) \<noteq> [] \<Longrightarrow>
   fst (add_comment clock u tid msg d) = Inr () \<and>
   map author (comments (snd (add_comment clock u tid msg d)))
     = map author (comments d) @ [user_id u]"
  by (simp add: add_comment_def Let_def)

text \<open>
  C2. Bob, a staff member, is refused the view of Alice's ticket, yet his comment on it is
  stored: \<^verbatim>\<open>add_comment\<close> looks at neither the role nor the owner.
\<close>

theorem add_comment_other_staff:
  "role staff_bob = ''staff'' \<and> get_ticket sample_db 1 = Some sample_ticket \<and>
   staff_id sample_ticket \<noteq> user_id staff_bob \<and>
   view_ticket staff_bob 1 sample_db = Inl NotAuthorized \<and>
   add_comment sample_clock staff_bob 1 (Some ''mine now'') sample_db =
     (Inr (),
      sample_db\<lparr>comments :=
        [\<lparr>comment_id = 1, on_ticket = 1, author = 2, message = ''mine now'',
          posted_at = naive_pk_now sample_clock\<rparr>]\<rparr>)"
  by (simp add: view_ticket_def add_comment_def get_ticket_def next_id_def strip_def
      is_space_def form_get_def sample_defs time_defs)

subsection \<open>Creating a ticket\<close>

lemma fold_max_ge: "a \<le> fold max ids (a::int) \<and> (\<forall>x\<in>set ids. x \<le> fold max ids a)"
proof (induction ids arbitrary: a)
  case Nil
  show ?case by simp
next
  case (Cons y ys)
  from Cons [of "max y a"] show ?case by auto
qed

lemma next_id_fresh: "i \<in> set ids \<Longrightarrow> i < next_id ids"
  using fold_max_ge [of 0 ids] by (auto simp: next_id_def)

lemma find_append_new:
  "\<forall>x\<in>set xs. ticket_id x \<noteq> i \<Longrightarrow> ticket_id t = i \<Longrightarrow>
   find (\<lambda>x. ticket_id x = i) (xs @ [t]) = Some t"
  by (induction xs) auto


lemma get_ticket_inserted:
  assumes "ticket_id t = next_id (map ticket_id (tickets d))"
  shows "get_ticket (d\<lparr>tickets := tickets d @ [t]\<rparr>) (ticket_id t) = Some t"
proof -
  have "\<forall>x\<in>set (tickets d). ticket_id x \<noteq> ticket_id t"
  proof
    fix x assume "x \<in> set (tickets d)"
    then have "ticket_id x \<in> set (map ticket_id (tickets d))" by simp
    then have "ticket_id x < next_id (map ticket_id (tickets d))" by (rule next_id_fresh)
    then show "ticket_id x \<noteq> ticket_id t" using assms by simp
  qed
  then show ?thesis by (simp add: get_ticket_def find_append_new)
qed

lemma create_ticket_Inr:
  assumes "create_ticket sf clock u form d = (Inr tid, d')"
  obtains fname where "role u = ''staff''"
    and "list_all truthy [f_practice_name form, f_provider_name form, f_subject form,
                          f_description form, f_priority form]"
    and "handle_attachment sf (f_attachment form) = Inr fname"
    and "tid = next_id (map ticket_id (tickets d))"
    and "get_ticket d' tid =
       Some \<lparr>ticket_id = next_id (map ticket_id (tickets d)),
             staff_id = user_id u,
             practice_name = the (f_practice_name form),
             provider_name = the (f_provider_name form),
             subject = the (f_subject form),
             description = the (f_description form),
             priority = the (f_priority form),
             status = ''Open'',
             attachment_filename = fname,
             assigned_to = Some [],
             created_at = db_datetime (now_in clock PK_TZ),
             updated_at = naive_pk_now clock,
             due_time = db_datetime
               (if the (f_priority form) = ''Urgent''
                then dt_add (now_in clock PK_TZ) (timedelta 0 2)
                else if the (f_priority form) = ''7 Days''
                then dt_add (now_in clock PK_TZ) (timedelta 7 0)
                else dt_add (now_in clock PK_TZ) (timedelta 3 0))\<rparr>"
proof -
  let ?t = "\<lparr>ticket_id = next_id (map ticket_id (tickets d)),
             staff_id = user_id u,
             practice_name = the (f_practice_name form),
             provider_name = the (f_provider_name form),
             subject = the (f_subject form),
             description = the (f_description form),
             priority = the (f_priority form),
             status = ''Open'',
             attachment_filename = (case handle_attachment sf (f_attachment form) of Inr f \<Rightarrow> f),
             assigned_to = Some [],
             created_at = db_datetime (now_in clock PK_TZ),
             updated_at = naive_pk_now clock,
             due_time = db_datetime
               (if the (f_priority form) = ''Urgent''
                then dt_add (now_in clock PK_TZ) (timedelta 0 2)
                else if the (f_priority form) = ''7 Days''
                then dt_add (now_in clock PK_TZ) (timedelta 7 0)
                else dt_add (now_in clock PK_TZ) (timedelta 3 0))\<rparr>"
  have r: "role u = ''staff''"
    using assms by (auto simp: create_ticket_def split: if_splits)
  have a: "list_all truthy [f_practice_name form, f_provider_name form, f_subject form,
                          f_description form, f_priority form]"
    using assms r by (auto simp: create_ticket_def split: if_splits)
  obtain fname where h: "handle_attachment sf (f_attachment form) = Inr fname"
    using assms r a by (cases "handle_attachment sf (f_attachment form)")
      (auto simp: create_ticket_def Let_def)
  have e: "create_ticket sf clock u form d = (Inr (ticket_id ?t), d\<lparr>tickets := tickets d @ [?t]\<rparr>)"
    using r a h unfolding create_ticket_def Let_def by simp
  have i: "ticket_id ?t = next_id (map ticket_id (tickets d))" by simp
  from e assms have t: "tid = ticket_id ?t" and d': "d' = d\<lparr>tickets := tickets d @ [?t]\<rparr>"
    by simp_all
  have "get_ticket d' tid = Some ?t" unfolding t d' using i by (rule get_ticket_inserted)
  then show thesis using that [OF r a h] t i h by simp
qed

lemma truthy_Some: "truthy v \<Longrightarrow> v = Some (the v)"
  by (cases v) (simp_all add: truthy_def)

text \<open>
  C3. A ticket that \<^verbatim>\<open>create_ticket\<close> has stored is Open, was created at the current Karachi
  wall-clock time, and is due two hours later when its priority is Urgent, seven days later
  when it is ``7 Days'', and three days later for every other priority.
\<close>

theorem create_ticket_due_time:
  assumes "create_ticket sf clock u form d = (Inr tid, d')"
  shows "\<exists>t. get_ticket d' tid = Some t \<and> f_priority form = Some (priority t) \<and>
             status t = ''Open'' \<and> created_at t = naive_pk_now clock \<and>
             due_time t =
               dt_add (created_at t)
                 (if priority t = ''Urgent'' then timedelta 0 2
                  else if priority t = ''7 Days'' then timedelta 7 0
                  else timedelta 3 0)"
proof -
  from assms obtain t where
    a: "list_all truthy [f_practice_name form, f_provider_name form, f_subject form,
                          f_description form, f_priority form]"
    and g: "get_ticket d' tid = Some t"
    and p: "priority t = the (f_priority form)"
    and s: "status t = ''Open''"
    and c: "created_at t = db_datetime (now_in clock PK_TZ)"
    and du: "due_time t = db_datetime
               (if the (f_priority form) = ''Urgent''
                then dt_add (now_in clock PK_TZ) (timedelta 0 2)
                else if the (f_priority form) = ''7 Days''
                then dt_add (now_in clock PK_TZ) (timedelta 7 0)
                else dt_add (now_in clock PK_TZ) (timedelta 3 0))"
    by (rule create_ticket_Inr) simp
  from a have "f_priority form = Some (the (f_priority form))"
    by (simp add: truthy_Some [symmetric])
  then have fp: "f_priority form = Some (priority t)" using p by simp
  have c': "created_at t = naive_pk_now clock"
    using c by (simp add: db_datetime_def naive_pk_now_def)
  have du': "due_time t = dt_add (created_at t)
                 (if priority t = ''Urgent'' then timedelta 0 2
                  else if priority t = ''7 Days'' then timedelta 7 0
                  else timedelta 3 0)"
    using du c p by (simp add: db_datetime_def dt_add_def replace_tzinfo_def)
  show ?thesis using g fp s c' du' by blast
qed

theorem create_ticket_due_time_witness:
  "create_ticket (\<lambda>s. s) sample_clock staff_alice sample_form sample_db
     = (Inr 2, snd (create_ticket (\<lambda>s. s) sample_clock staff_alice sample_form sample_db)) \<and>
   map_option due_time
     (get_ticket (snd (create_ticket (\<lambda>s. s) sample_clock staff_alice sample_form sample_db)) 2)
     = Some (dt_add (naive_pk_now sample_clock) (timedelta 3 0))"
proof -
  let ?r = "create_ticket (\<lambda>s. s) sample_clock staff_alice sample_form sample_db"
  have f: "fst ?r = Inr 2"
    by (simp add: create_ticket_def Let_def truthy_def handle_attachment_def next_id_def sample_defs)
  then have h: "?r = (Inr 2, snd ?r)" by (simp add: prod_eq_iff)
  from create_ticket_due_time [OF h] obtain t where
    g: "get_ticket (snd ?r) 2 = Some t" and p: "f_priority sample_form = Some (priority t)"
    and c: "created_at t = naive_pk_now sample_clock"
    and du: "due_time t = dt_add (created_at t)
                 (if priority t = ''Urgent'' then timedelta 0 2
                  else if priority t = ''7 Days'' then timedelta 7 0
                  else timedelta 3 0)"
    by blast
  from p have "priority t = ''15 Days''" by (simp add: sample_defs)
  with du c have "due_time t = dt_add (naive_pk_now sample_clock) (timedelta 3 0)" by simp
  with g h show ?thesis by simp
qed

text \<open>
  C8. A ticket that has just been stored is not overdue at the instant of its creation: its
  due time lies strictly after its creation time, the dashboards' test with \<open>now\<close> equal to
  the creation time fails, and the reminder job run at that instant does not select it.
\<close>

theorem new_ticket_not_overdue:
  assumes "create_ticket sf clock u form d = (Inr tid, d')"
  shows "\<exists>t. get_ticket d' tid = Some t \<and>
             created_at t = make_naive (now_in clock PK_TZ) \<and>
             wall (created_at t) < wall (due_time t) \<and>
             \<not> is_overdue (created_at t) t \<and>
             t \<notin> set (check_ticket_deadlines clock d')"
proof -
  from assms obtain t where
    g: "get_ticket d' tid = Some t"
    and c: "created_at t = db_datetime (now_in clock PK_TZ)"
    and du: "due_time t = db_datetime
               (if the (f_priority form) = ''Urgent''
                then dt_add (now_in clock PK_TZ) (timedelta 0 2)
                else if the (f_priority form) = ''7 Days''
                then dt_add (now_in clock PK_TZ) (timedelta 7 0)
                else dt_add (now_in clock PK_TZ) (timedelta 3 0))"
    by (rule create_ticket_Inr) simp
  have c': "created_at t = make_naive (now_in clock PK_TZ)"
    using c by (simp add: time_defs)
  have n: "tzinfo (due_time t) = None" using du by (simp add: time_defs)
  have w: "wall (created_at t) < wall (due_time t)" using c du by (simp add: time_defs)
  have o: "\<not> is_overdue (created_at t) t"
    using w n by (simp add: is_overdue_def make_naive_def)
  have "clock < wall (due_time t)" using du by (simp add: time_defs)
  then have s: "t \<notin> set (check_ticket_deadlines clock d')"
    by (simp add: check_ticket_deadlines_def utcnow_def)
  show ?thesis using g c' w o s by blast
qed

theorem new_ticket_not_overdue_witness:
  "create_ticket (\<lambda>s. s) sample_clock staff_bob (sample_form\<lparr>f_priority := Some ''Urgent''\<rparr>) sample_db
     = (Inr 2, snd (create_ticket (\<lambda>s. s) sample_clock staff_bob
                      (sample_form\<lparr>f_priority := Some ''Urgent''\<rparr>) sample_db)) \<and>
   (\<exists>t. get_ticket (snd (create_ticket (\<lambda>s. s) sample_clock staff_bob
                      (sample_form\<lparr>f_priority := Some ''Urgent''\<rparr>) sample_db)) 2 = Some t \<and>
        \<not> is_overdue (make_naive (now_in sample_clock PK_TZ)) t)"
proof -
  let ?r = "create_ticket (\<lambda>s. s) sample_clock staff_bob
              (sample_form\<lparr>f_priority := Some ''Urgent''\<rparr>) sample_db"
  have f: "fst ?r = Inr 2"
    by (simp add: create_ticket_def Let_def truthy_def handle_attachment_def next_id_def sample_defs)
  then have h: "?r = (Inr 2, snd ?r)" by (simp add: prod_eq_iff)
  from new_ticket_not_overdue [OF h] obtain t where
    "get_ticket (snd ?r) 2 = Some t" "created_at t = make_naive (now_in sample_clock PK_TZ)"
    "\<not> is_overdue (created_at t) t"
    by blast
  then have "\<exists>t. get_ticket (snd ?r) 2 = Some t \<and>
        \<not> is_overdue (make_naive (now_in sample_clock PK_TZ)) t" by auto
  with h show ?thesis by simp
qed

subsection \<open>Attachments\<close>

text \<open>
  \<^verbatim>\<open>allowed_file\<close> accepts exactly the names that end in a dot followed by an extension
  without a dot which, in lower case, is on the list.
\<close>

lemma rsplit_once_ext:
  assumes "CHR ''.'' \<in> set f"
  shows "rsplit_once CHR ''.'' f ! 1 = rev (takeWhile (\<lambda>c. c \<noteq> CHR ''.'') (rev f))"
  using assms by (simp add: rsplit_once_def)

lemma allowed_file_iff:
  "allowed_file f \<longleftrightarrow>
     (\<exists>stem ext. f = stem @ CHR ''.'' # ext \<and> CHR ''.'' \<notin> set ext \<and>
                 lower ext \<in> set ALLOWED_EXTENSIONS)"
proof
  assume a: "allowed_file f"
  then have dot: "CHR ''.'' \<in> set f" by (simp add: allowed_file_def)
  let ?P = "\<lambda>c. c \<noteq> CHR ''.''"
  let ?ext = "rev (takeWhile ?P (rev f))"
  from a have l: "lower ?ext \<in> set ALLOWED_EXTENSIONS"
    unfolding allowed_file_def rsplit_once_ext [OF dot] by simp
  from dot have "dropWhile ?P (rev f) \<noteq> []" by auto
  then obtain c rest where dw: "dropWhile ?P (rev f) = c # rest"
    by (cases "dropWhile ?P (rev f)") auto
  then have "\<not> ?P c" using hd_dropWhile [of ?P "rev f"] by auto
  then have c: "c = CHR ''.''" by simp
  have "rev f = takeWhile ?P (rev f) @ dropWhile ?P (rev f)" by simp
  then have "rev f = takeWhile ?P (rev f) @ CHR ''.'' # rest" using dw c by simp
  then have "rev (rev f) = rev (takeWhile ?P (rev f) @ CHR ''.'' # rest)" by (rule arg_cong)
  then have f: "f = rev rest @ CHR ''.'' # ?ext" by simp
  have n: "CHR ''.'' \<notin> set ?ext" using set_takeWhileD [of "CHR ''.''" ?P "rev f"] by auto
  from f n l show "\<exists>stem ext. f = stem @ CHR ''.'' # ext \<and> CHR ''.'' \<notin> set ext \<and>
                 lower ext \<in> set ALLOWED_EXTENSIONS" by blast
next
  assume "\<exists>stem ext. f = stem @ CHR ''.'' # ext \<and> CHR ''.'' \<notin> set ext \<and>
                 lower ext \<in> set ALLOWED_EXTENSIONS"
  then obtain stem ext where f: "f = stem @ CHR ''.'' # ext" and n: "CHR ''.'' \<notin> set ext"
    and l: "lower ext \<in> set ALLOWED_EXTENSIONS" by blast
  have dot: "CHR ''.'' \<in> set f" using f by simp
  have "rev f = rev ext @ CHR ''.'' # rev stem" using f by simp
  moreover have "takeWhile (\<lambda>c. c \<noteq> CHR ''.'') (rev ext @ CHR ''.'' # rev stem) = rev ext"
    using n by (subst takeWhile_append2) auto
  ultimately have "rev (takeWhile (\<lambda>c. c \<noteq> CHR ''.'') (rev f)) = ext" by simp
  then show "allowed_file f"
    unfolding allowed_file_def rsplit_once_ext [OF dot] using dot l by simp
qed

text \<open>
  C7. When the request carries an attachment with a non-empty name that \<^verbatim>\<open>allowed_file\<close>
  rejects, \<^verbatim>\<open>create_ticket\<close> fails and the database is the one it was given; for a staff
  member who filled in every field the failure is \<open>InvalidAttachment\<close>.
\<close>

theorem create_ticket_bad_attachment:
  assumes "f_attachment form = Some fname" and "fname \<noteq> []" and "\<not> allowed_file fname"
  shows "create_ticket sf clock u form d =
           (Inl (if role u \<noteq> ''staff'' then NotAuthorized
                 else if \<not> list_all truthy
                            [f_practice_name form, f_provider_name form, f_subject form,
                             f_description form, f_priority form]
                 then MissingFields
                 else InvalidAttachment), d)"
proof -
  have "handle_attachment sf (f_attachment form) = Inl InvalidAttachment"
    using assms by (simp add: handle_attachment_def)
  then show ?thesis unfolding create_ticket_def Let_def by simp
qed

theorem create_ticket_bad_attachment_witness:
  "f_attachment (sample_form\<lparr>f_attachment := Some ''malware.exe''\<rparr>) = Some ''malware.exe'' \<and>
   ''malware.exe'' \<noteq> [] \<and> \<not> allowed_file ''malware.exe'' \<and>
   create_ticket (\<lambda>s. s) sample_clock staff_alice
       (sample_form\<lparr>f_attachment := Some ''malware.exe''\<rparr>) sample_db
     = (Inl InvalidAttachment, sample_db)"
proof -
  have h1: "f_attachment (sample_form\<lparr>f_attachment := Some ''malware.exe''\<rparr>) = Some ''malware.exe''"
    by simp
  have h2: "''malware.exe'' \<noteq> []" by simp
  have h3: "\<not> allowed_file ''malware.exe''"
    by (simp add: allowed_file_def rsplit_once_def lower_def lower_char_def ALLOWED_EXTENSIONS_def)
  have r: "role staff_alice = ''staff''" by (simp add: sample_defs)
  have a: "list_all truthy
     [f_practice_name (sample_form\<lparr>f_attachment := Some ''malware.exe''\<rparr>),
      f_provider_name (sample_form\<lparr>f_attachment := Some ''malware.exe''\<rparr>),
      f_subject (sample_form\<lparr>f_attachment := Some ''malware.exe''\<rparr>),
      f_description (sample_form\<lparr>f_attachment := Some ''malware.exe''\<rparr>),
      f_priority (sample_form\<lparr>f_attachment := Some ''malware.exe''\<rparr>)]"
    by (simp add: truthy_def sample_defs)
  from create_ticket_bad_attachment [OF h1 h2 h3, of "\<lambda>s. s" sample_clock staff_alice sample_db]
  have "create_ticket (\<lambda>s. s) sample_clock staff_alice
       (sample_form\<lparr>f_attachment := Some ''malware.exe''\<rparr>) sample_db
     = (Inl InvalidAttachment, sample_db)"
    using r a by simp
  then show ?thesis using h1 h2 h3 by simp
qed

lemma create_ticket_stored_attachment:
  assumes "create_ticket sf clock u form d = (Inr tid, d')"
  shows "\<exists>t. get_ticket d' tid = Some t \<and>
             handle_attachment sf (f_attachment form) = Inr (attachment_filename t)"
  using assms by (rule create_ticket_Inr) simp

text \<open>
  C9. For a staff member who filled in every field: an attachment part with an empty filename
  counts as no attachment, and the ticket is stored with no attachment filename; an attachment
  whose non-empty filename has no dot is refused with \<open>InvalidAttachment\<close>.
\<close>

theorem create_ticket_attachment_edge_cases:
  assumes "role u = ''staff''"
    and "list_all truthy [f_practice_name form, f_provider_name form, f_subject form,
                          f_description form, f_priority form]"
  shows "(f_attachment form = Some [] \<longrightarrow>
            (\<exists>tid t. fst (create_ticket sf clock u form d) = Inr tid \<and>
                     get_ticket (snd (create_ticket sf clock u form d)) tid = Some t \<and>
                     attachment_filename t = None)) \<and>
         (\<forall>fname. f_attachment form = Some fname \<and> fname \<noteq> [] \<and> CHR ''.'' \<notin> set fname \<longrightarrow>
            create_ticket sf clock u form d = (Inl InvalidAttachment, d))"
proof (intro conjI impI allI)
  assume e: "f_attachment form = Some []"
  then have h: "handle_attachment sf (f_attachment form) = Inr None"
    by (simp add: handle_attachment_def)
  have "\<exists>tid. fst (create_ticket sf clock u form d) = Inr tid"
    using assms h unfolding create_ticket_def Let_def by simp
  then obtain tid where c: "create_ticket sf clock u form d
      = (Inr tid, snd (create_ticket sf clock u form d))"
    by (auto simp: prod_eq_iff)
  from create_ticket_stored_attachment [OF c] h obtain t where
    "get_ticket (snd (create_ticket sf clock u form d)) tid = Some t"
    "attachment_filename t = None"
    by auto
  with c show "\<exists>tid t. fst (create_ticket sf clock u form d) = Inr tid \<and>
                     get_ticket (snd (create_ticket sf clock u form d)) tid = Some t \<and>
                     attachment_filename t = None"
    by (metis fst_conv)
next
  fix fname
  assume "f_attachment form = Some fname \<and> fname \<noteq> [] \<and> CHR ''.'' \<notin> set fname"
  then have "handle_attachment sf (f_attachment form) = Inl InvalidAttachment"
    by (simp add: handle_attachment_def allowed_file_def)
  then show "create_ticket sf clock u form d = (Inl InvalidAttachment, d)"
    using assms unfolding create_ticket_def Let_def by simp
qed

theorem create_ticket_attachment_edge_cases_witness:
  "role staff_alice = ''staff'' \<and>
   (\<exists>tid t. fst (create_ticket (\<lambda>s. s) sample_clock staff_alice
                    (sample_form\<lparr>f_attachment := Some []\<rparr>) sample_db) = Inr tid \<and>
            get_ticket (snd (create_ticket (\<lambda>s. s) sample_clock staff_alice
                    (sample_form\<lparr>f_attachment := Some []\<rparr>) sample_db)) tid = Some t \<and>
            attachment_filename t = None) \<and>
   create_ticket (\<lambda>s. s) sample_clock staff_alice
       (sample_form\<lparr>f_attachment := Some ''README''\<rparr>) sample_db
     = (Inl InvalidAttachment, sample_db)"
proof -
  have r: "role staff_alice = ''staff''" by (simp add: sample_defs)
  have a1: "list_all truthy
     [f_practice_name (sample_form\<lparr>f_attachment := Some []\<rparr>),
      f_provider_name (sample_form\<lparr>f_attachment := Some []\<rparr>),
      f_subject (sample_form\<lparr>f_attachment := Some []\<rparr>),
      f_description (sample_form\<lparr>f_attachment := Some []\<rparr>),
      f_priority (sample_form\<lparr>f_attachment := Some []\<rparr>)]"
    by (simp add: truthy_def sample_defs)
  have a2: "list_all truthy
     [f_practice_name (sample_form\<lparr>f_attachment := Some ''README''\<rparr>),
      f_provider_name (sample_form\<lparr>f_attachment := Some ''README''\<rparr>),
      f_subject (sample_form\<lparr>f_attachment := Some ''README''\<rparr>),
      f_description (sample_form\<lparr>f_attachment := Some ''README''\<rparr>),
      f_priority (sample_form\<lparr>f_attachment := Some ''README''\<rparr>)]"
    by (simp add: truthy_def sample_defs)
  have e: "f_attachment (sample_form\<lparr>f_attachment := Some []\<rparr>) = Some []" by simp
  have n: "f_attachment (sample_form\<lparr>f_attachment := Some ''README''\<rparr>) = Some ''README'' \<and>
           ''README'' \<noteq> [] \<and> CHR ''.'' \<notin> set ''README''" by simp
  from create_ticket_attachment_edge_cases [OF r a1, of "\<lambda>s. s" sample_clock sample_db] e
  have p1: "\<exists>tid t. fst (create_ticket (\<lambda>s. s) sample_clock staff_alice
                    (sample_form\<lparr>f_attachment := Some []\<rparr>) sample_db) = Inr tid \<and>
            get_ticket (snd (create_ticket (\<lambda>s. s) sample_clock staff_alice
                    (sample_form\<lparr>f_attachment := Some []\<rparr>) sample_db)) tid = Some t \<and>
            attachment_filename t = None"
    by blast
  from create_ticket_attachment_edge_cases [OF r a2, of "\<lambda>s. s" sample_clock sample_db] n
  have p2: "create_ticket (\<lambda>s. s) sample_clock staff_alice
       (sample_form\<lparr>f_attachment := Some ''README''\<rparr>) sample_db
     = (Inl InvalidAttachment, sample_db)"
    by blast
  from r p1 p2 show ?thesis by blast
qed

subsection \<open>Overdue tickets\<close>

text \<open>
  C6. The dashboards count a ticket as overdue when its status in lower case is neither closed
  nor approved and its due time, as a naive Karachi time, is strictly before the naive Karachi
  time now. The reminder job is meant to find the tickets past their due time as well, but it
  compares the stored Karachi due time with \<^verbatim>\<open>datetime.utcnow()\<close>. Alice's open ticket was due
  at 04:00 Karachi time and the clock reads 05:00 there: the dashboard counts it as overdue,
  and the reminder job run at the same instant passes over it.
\<close>

theorem reminder_misses_overdue_ticket:
  "status late_ticket = ''Open'' \<and>
   tickets overdue_db = [late_ticket] \<and>
   wall (make_naive (due_time late_ticket)) < wall (make_naive (now_in sample_clock PK_TZ)) \<and>
   is_overdue (make_naive (now_in sample_clock PK_TZ)) late_ticket \<and>
   map_option overdue_tickets (staff_dashboard sample_clock staff_alice ''All'' overdue_db)
     = Some 1 \<and>
   map_option overdue_tickets (admin_dashboard sample_clock admin_carol ''All'' overdue_db)
     = Some 1 \<and>
   check_ticket_deadlines sample_clock overdue_db = []"
  by (simp add: is_overdue_def check_ticket_deadlines_def staff_dashboard_def
      admin_dashboard_def dashboard_counts_def lower_def lower_char_def sample_defs time_defs)

end
